theory Spec2Isabelle
  imports Complex_Main
begin

section \<open>Data model (Canvas.tsx, page component)\<close>

text \<open>
  The three device classes of the page component:
  \<^verbatim>\<open>useState<"mobile" | "web" | "tablet">("web")\<close>.
\<close>

datatype deviceType = mobile | web | tablet

text \<open>
  \<^verbatim>\<open>export interface ScreenData { id: string; name: string; html: string | null;
     w: number; h: number; x: number; y: number; loading?: boolean }\<close>

  A \<open>number\<close> is an IEEE-754 double. The geometry fields hold the integer-valued
  doubles (whole pixels) and are modelled as \<open>int\<close>; fractional pixels, infinities
  and NaN are not represented. The arithmetic of the handlers on the page (\<open>50 + 20 *
  length\<close>, the device sizes) stays far below \<open>2 ^ 53\<close>, where it is exact; the
  canvas offset is applied to arbitrary coordinates and is rounded explicitly below.
  The optional \<open>loading\<close> field is \<open>None\<close> when the key is absent.
\<close>

record ScreenData =
  scr_id :: string
  scr_name :: string
  scr_html :: "string option"
  scr_w :: int
  scr_h :: int
  scr_x :: int
  scr_y :: int
  scr_loading :: "bool option"

text \<open>
  \<open>Partial<ScreenData>\<close>: every key may be absent (\<open>None\<close>); a present key carries the
  value that overrides the screen's field.
\<close>

record ScreenPatch =
  p_id :: "string option"
  p_name :: "string option"
  p_html :: "string option option"
  p_w :: "int option"
  p_h :: "int option"
  p_x :: "int option"
  p_y :: "int option"
  p_loading :: "bool option option"

definition noPatch :: ScreenPatch where
  "noPatch = \<lparr>p_id = None, p_name = None, p_html = None, p_w = None, p_h = None,
     p_x = None, p_y = None, p_loading = None\<rparr>"

text \<open>The object spread \<^verbatim>\<open>{ ...s, ...data }\<close>: keys of \<open>data\<close> win.\<close>

definition spread :: "ScreenData \<Rightarrow> ScreenPatch \<Rightarrow> ScreenData" where
  "spread s d =
     \<lparr>scr_id = (case p_id d of None \<Rightarrow> scr_id s | Some v \<Rightarrow> v),
      scr_name = (case p_name d of None \<Rightarrow> scr_name s | Some v \<Rightarrow> v),
      scr_html = (case p_html d of None \<Rightarrow> scr_html s | Some v \<Rightarrow> v),
      scr_w = (case p_w d of None \<Rightarrow> scr_w s | Some v \<Rightarrow> v),
      scr_h = (case p_h d of None \<Rightarrow> scr_h s | Some v \<Rightarrow> v),
      scr_x = (case p_x d of None \<Rightarrow> scr_x s | Some v \<Rightarrow> v),
      scr_y = (case p_y d of None \<Rightarrow> scr_y s | Some v \<Rightarrow> v),
      scr_loading = (case p_loading d of None \<Rightarrow> scr_loading s | Some v \<Rightarrow> v)\<rparr>"

text \<open>
  The state of the page component that the handlers read and write:
  \<open>deviceType\<close>, \<open>prompt\<close>, \<open>code\<close> and \<open>screens\<close> (project name, theme and the
  code-panel toggle are not touched by any handler below).
\<close>

record Home =
  deviceType :: deviceType
  prompt :: string
  code :: "string option"
  screens :: "ScreenData list"

text \<open>The initial state of the component.\<close>

definition mainScreen :: ScreenData where
  "mainScreen = \<lparr>scr_id = ''main'', scr_name = ''App Screen'', scr_html = None,
     scr_w = 1024, scr_h = 768, scr_x = 0, scr_y = 0, scr_loading = Some False\<rparr>"

definition initialHome :: Home where
  "initialHome = \<lparr>deviceType = web, prompt = '''', code = None, screens = [mainScreen]\<rparr>"

section \<open>Single-screen update\<close>

text \<open>
  \<^verbatim>\<open>const handleScreenUpdate = (id, data) => {
       setScreens((prev) => prev.map((s) => (s.id === id ? { ...s, ...data } : s))) }\<close>
\<close>

definition handleScreenUpdate :: "string \<Rightarrow> ScreenPatch \<Rightarrow> ScreenData list \<Rightarrow> ScreenData list" where
  "handleScreenUpdate i data prev = map (\<lambda>s. if scr_id s = i then spread s data else s) prev"

section \<open>Device change\<close>

text \<open>
  The \<open>switch\<close> of \<open>handleDeviceChange\<close>:
  \<^verbatim>\<open>case "mobile": w = 375; h = 812; case "tablet": w = 768; h = 1024;
     case "web": default: w = 1024; h = 768\<close>
\<close>

fun deviceW :: "deviceType \<Rightarrow> int" where
  "deviceW mobile = 375"
| "deviceW tablet = 768"
| "deviceW web = 1024"

fun deviceH :: "deviceType \<Rightarrow> int" where
  "deviceH mobile = 812"
| "deviceH tablet = 1024"
| "deviceH web = 768"

text \<open>
  \<^verbatim>\<open>const handleDeviceChange = (type) => {
       setDeviceType(type)
       setScreens((prev) => prev.map((s) => { ...; return { ...s, w, h } })) }\<close>
\<close>

definition handleDeviceChange :: "deviceType \<Rightarrow> Home \<Rightarrow> Home" where
  "handleDeviceChange type st =
     st\<lparr>deviceType := type,
        screens := map (\<lambda>s. s\<lparr>scr_w := deviceW type, scr_h := deviceH type\<rparr>) (screens st)\<rparr>"

section \<open>Adding a screen\<close>

text \<open>Decimal rendering of a number inside a template string.\<close>

definition digit :: "nat \<Rightarrow> char" where
  "digit d = ''0123456789'' ! d"

fun decimal :: "nat \<Rightarrow> string" where
  "decimal n = (if n < 10 then [digit n] else decimal (n div 10) @ [digit (n mod 10)])"

text \<open>
  \<^verbatim>\<open>const handleAddScreen = () => {
       const w = deviceType === "mobile" ? 375 : deviceType === "tablet" ? 768 : 1024
       const h = deviceType === "mobile" ? 812 : deviceType === "tablet" ? 1024 : 768
       const newScreen = {
         id: `screen-${Date.now()}`,
         name: `Screen ${screens.length + 1}`,
         html: screens[0]?.html || null,
         w, h,
         x: 50 + (screens.length * 20),
         y: 50 + (screens.length * 20),
         loading: screens[0]?.loading || false }
       setScreens((prev) => [...prev, newScreen]) }\<close>

  \<open>now\<close> is the value of \<open>Date.now()\<close>. The operator \<open>||\<close> replaces a falsy left
  operand: an absent first screen, a \<open>null\<close> or empty \<open>html\<close>, an absent or false
  \<open>loading\<close>.
\<close>

definition inheritedHtml :: "ScreenData list \<Rightarrow> string option" where
  "inheritedHtml scrs =
     (case scrs of [] \<Rightarrow> None
      | s # _ \<Rightarrow> (case scr_html s of None \<Rightarrow> None
                  | Some t \<Rightarrow> if t = [] then None else Some t))"

definition inheritedLoading :: "ScreenData list \<Rightarrow> bool" where
  "inheritedLoading scrs = (case scrs of [] \<Rightarrow> False | s # _ \<Rightarrow> scr_loading s = Some True)"

definition newScreen :: "nat \<Rightarrow> Home \<Rightarrow> ScreenData" where
  "newScreen now st =
     \<lparr>scr_id = ''screen-'' @ decimal now,
      scr_name = ''Screen '' @ decimal (length (screens st) + 1),
      scr_html = inheritedHtml (screens st),
      scr_w = (if deviceType st = mobile then 375 else if deviceType st = tablet then 768 else 1024),
      scr_h = (if deviceType st = mobile then 812 else if deviceType st = tablet then 1024 else 768),
      scr_x = 50 + int (length (screens st)) * 20,
      scr_y = 50 + int (length (screens st)) * 20,
      scr_loading = Some (inheritedLoading (screens st))\<rparr>"

definition handleAddScreen :: "nat \<Rightarrow> Home \<Rightarrow> Home" where
  "handleAddScreen now st = st\<lparr>screens := screens st @ [newScreen now st]\<rparr>"

text \<open>Pressing "add screen" repeatedly, once per clock value of the list.\<close>

fun addScreens :: "nat list \<Rightarrow> Home \<Rightarrow> Home" where
  "addScreens [] st = st"
| "addScreens (now # nows) st = addScreens nows (handleAddScreen now st)"

section \<open>Generation run\<close>

text \<open>
  \<open>prompt.trim()\<close> strips white space and line terminators from both ends; the run
  starts only when something is left (\<^verbatim>\<open>if (!prompt.trim()) return\<close>). Characters are
  8-bit here: tab, line feed, vertical tab, form feed, carriage return, space and
  no-break space.
\<close>

definition isWhiteSpace :: "char \<Rightarrow> bool" where
  "isWhiteSpace c \<longleftrightarrow>
     c \<in> set [CHR 0x09, CHR 0x0A, CHR 0x0B, CHR 0x0C, CHR 0x0D, CHR 0x20, CHR 0xA0]"

definition trim :: "string \<Rightarrow> string" where
  "trim s = rev (dropWhile isWhiteSpace (rev (dropWhile isWhiteSpace s)))"

text \<open>
  The response of \<open>generateComponent\<close> (the request itself lives in \<open>@/lib/api\<close>, outside
  the component): \<^verbatim>\<open>{ code, html_preview, success }\<close>. The awaited promise either
  resolves with a response or rejects, which the \<open>catch\<close> block handles.
\<close>

record GenerateResponse =
  resp_code :: string
  html_preview :: string
  success :: bool

datatype outcome = Resolved GenerateResponse | Rejected

text \<open>
  The effects a run performs, in program order. Each \<open>setScreens\<close> call passes an
  updater \<open>prev => prev.map(...)\<close>, applied to the list current at that moment.
\<close>

datatype effect =
    SetScreensLoading
  | SetCode "string option"
  | GenerateComponent string deviceType
  | SetScreensPreview string
  | SetScreensNotLoading
  | Alert string
  | ConsoleError

text \<open>
  \<^verbatim>\<open>const handleGenerate = async () => {
       if (!prompt.trim()) return
       setScreens((prev) => prev.map((s) => ({ ...s, loading: true, html: null })))
       setCode(null)
       try {
         const response = await generateComponent(prompt, deviceType)
         if (response.success) {
           setCode(response.code)
           setTimeout(() => { setScreens((prev) =>
             prev.map((s) => ({ ...s, html: response.html_preview, loading: false }))) }, 100)
         } else {
           setScreens((prev) => prev.map((s) => ({ ...s, loading: false })))
           alert("Generation failed (no success flag).")
         }
       } catch (error) {
         console.error(error)
         alert("Failed to generate component. Please try again.")
         setScreens((prev) => prev.map((s) => ({ ...s, loading: false })))
       } }\<close>

  \<open>handleGenerate st oc\<close> is the list of effects of one run started in state \<open>st\<close> when
  the awaited request ends with \<open>oc\<close>.
\<close>

definition handleGenerate :: "Home \<Rightarrow> outcome \<Rightarrow> effect list" where
  "handleGenerate st oc =
     (if trim (prompt st) = [] then []
      else [SetScreensLoading, SetCode None, GenerateComponent (prompt st) (deviceType st)] @
        (case oc of
           Resolved response \<Rightarrow>
             if success response
             then [SetCode (Some (resp_code response)), SetScreensPreview (html_preview response)]
             else [SetScreensNotLoading, Alert ''Generation failed (no success flag).'']
         | Rejected \<Rightarrow>
             [ConsoleError, Alert ''Failed to generate component. Please try again.'',
              SetScreensNotLoading]))"

text \<open>What one effect does to the component state.\<close>

fun perform :: "effect \<Rightarrow> Home \<Rightarrow> Home" where
  "perform SetScreensLoading st =
     st\<lparr>screens := map (\<lambda>s. s\<lparr>scr_loading := Some True, scr_html := None\<rparr>) (screens st)\<rparr>"
| "perform (SetCode c) st = st\<lparr>code := c\<rparr>"
| "perform (GenerateComponent p d) st = st"
| "perform (SetScreensPreview h) st =
     st\<lparr>screens := map (\<lambda>s. s\<lparr>scr_html := Some h, scr_loading := Some False\<rparr>) (screens st)\<rparr>"
| "perform SetScreensNotLoading st =
     st\<lparr>screens := map (\<lambda>s. s\<lparr>scr_loading := Some False\<rparr>) (screens st)\<rparr>"
| "perform (Alert m) st = st"
| "perform ConsoleError st = st"

text \<open>
  Effects performed one after the other with nothing in between: one synchronous
  stretch of a handler.
\<close>

definition performAll :: "effect list \<Rightarrow> Home \<Rightarrow> Home" where
  "performAll es st = fold perform es st"

text \<open>
  A run is suspended twice: at \<open>await generateComponent(...)\<close> until the request ends,
  and, on success, for the 100 ms of \<open>setTimeout\<close>. Its effects fall into three
  stretches: up to and including the request, the handling of the outcome, and the
  timer callback. \<open>prompt\<close> and \<open>deviceType\<close> are the values of the render in which the
  run was started.
\<close>

definition beforeAwait :: "Home \<Rightarrow> effect list" where
  "beforeAwait st = [SetScreensLoading, SetCode None, GenerateComponent (prompt st) (deviceType st)]"

definition afterAwait :: "outcome \<Rightarrow> effect list" where
  "afterAwait oc =
     (case oc of
        Resolved response \<Rightarrow>
          if success response then [SetCode (Some (resp_code response))]
          else [SetScreensNotLoading, Alert ''Generation failed (no success flag).'']
      | Rejected \<Rightarrow>
          [ConsoleError, Alert ''Failed to generate component. Please try again.'',
           SetScreensNotLoading])"

definition onTimeout :: "outcome \<Rightarrow> effect list" where
  "onTimeout oc =
     (case oc of
        Resolved response \<Rightarrow>
          if success response then [SetScreensPreview (html_preview response)] else []
      | Rejected \<Rightarrow> [])"

text \<open>
  While a run is suspended the component stays live: nothing in the handlers stops a
  device change, an added screen, a drag or resize report, typing in the prompt, or a
  further generation run started with the Enter key
  (\<^verbatim>\<open>onKeyDown={(e) => e.key === "Enter" && handleGenerate()}\<close>), whose own stretches
  then fall in between.
\<close>

datatype event =
    DeviceChange deviceType
  | AddScreen nat
  | ScreenUpdate string ScreenPatch
  | TypePrompt string
  | RunSegment "effect list"

fun occur :: "event \<Rightarrow> Home \<Rightarrow> Home" where
  "occur (DeviceChange type) st = handleDeviceChange type st"
| "occur (AddScreen now) st = handleAddScreen now st"
| "occur (ScreenUpdate i data) st = st\<lparr>screens := handleScreenUpdate i data (screens st)\<rparr>"
| "occur (TypePrompt p) st = st\<lparr>prompt := p\<rparr>"
| "occur (RunSegment es) st = performAll es st"

definition occurAll :: "event list \<Rightarrow> Home \<Rightarrow> Home" where
  "occurAll evs st = fold occur evs st"

definition failed :: "outcome \<Rightarrow> bool" where
  "failed oc = (case oc of Resolved response \<Rightarrow> \<not> success response | Rejected \<Rightarrow> True)"

text \<open>
  The state when a run started in \<open>st\<close> has performed its last effect: \<open>awaiting\<close> are
  the events that occur while the request is pending, \<open>waiting\<close> those that occur while
  the timer of the success branch is pending (a failed run ends before any timer).
\<close>

definition runGenerate :: "Home \<Rightarrow> outcome \<Rightarrow> event list \<Rightarrow> event list \<Rightarrow> Home" where
  "runGenerate st oc awaiting waiting =
     (if trim (prompt st) = [] then st
      else if failed oc
      then performAll (afterAwait oc) (occurAll awaiting (performAll (beforeAwait st) st))
      else performAll (onTimeout oc)
             (occurAll waiting
               (performAll (afterAwait oc) (occurAll awaiting (performAll (beforeAwait st) st)))))"

text \<open>The requests a run issues, and the effects that precede the first request.\<close>

fun isRequest :: "effect \<Rightarrow> bool" where
  "isRequest (GenerateComponent p d) = True"
| "isRequest _ = False"

definition requests :: "effect list \<Rightarrow> effect list" where
  "requests es = filter isRequest es"

definition beforeRequest :: "effect list \<Rightarrow> effect list" where
  "beforeRequest es = takeWhile (\<lambda>e. \<not> isRequest e) es"

definition afterRequest :: "effect list \<Rightarrow> effect list" where
  "afterRequest es = tl (dropWhile (\<lambda>e. \<not> isRequest e) es)"

section \<open>Canvas coordinates (Canvas.tsx)\<close>

text \<open>
  The sum or difference of two integer-valued doubles is the exact integer result
  rounded to the nearest double, a tie going to the even mantissa. A double has a
  mantissa of 53 bits: \<open>binade m\<close> is the number of low bits of the magnitude \<open>m\<close> that do
  not fit, so the doubles around \<open>m\<close> are the multiples of \<open>2 ^ binade m\<close>. Adding or
  subtracting 2500 never overflows a finite double.
\<close>

function binade :: "nat \<Rightarrow> nat" where
  "binade m = (if m < 2 ^ 53 then 0 else Suc (binade (m div 2)))"
  by pat_completeness auto
termination
  by (relation "measure (\<lambda>m. m)") auto

declare binade.simps [simp del]

definition roundDouble :: "int \<Rightarrow> int" where
  "roundDouble n =
     (let m = nat \<bar>n\<bar>; e = binade m; q = m div 2 ^ e; r = m mod 2 ^ e;
          q' = (if 2 ^ e < 2 * r \<or> (2 * r = 2 ^ e \<and> odd q) then q + 1 else q)
      in sgn n * int (q' * 2 ^ e))"









section \<open>Viewport (TransformWrapper of Canvas.tsx)\<close>

text \<open>
  The configuration passed to the pan/zoom wrapper:
  \<^verbatim>\<open>initialScale={1} initialPositionX={-2000} initialPositionY={-2000}
     minScale={0.4} maxScale={4} wheel={{ step: 0.1 }}\<close>
\<close>

record TransformState =
  scale :: real
  positionX :: real
  positionY :: real

definition initialScale :: real where "initialScale = 1"
definition initialPositionX :: real where "initialPositionX = - 2000"
definition initialPositionY :: real where "initialPositionY = - 2000"
definition minScale :: real where "minScale = 4 / 10"
definition maxScale :: real where "maxScale = 4"
definition step :: real where "step = 1 / 10"

definition initialTransform :: TransformState where
  "initialTransform =
     \<lparr>scale = initialScale, positionX = initialPositionX, positionY = initialPositionY\<rparr>"

text \<open>
  Modelled from the spec: the bodies of \<open>zoomIn\<close>, \<open>zoomOut\<close> and \<open>resetTransform\<close>, which
  Canvas.tsx only receives from the pan/zoom wrapper and calls from its three buttons.
  The spec: "zoomIn()/zoomOut() multiply scale by a fixed step (0.1) clamped to
  [minScale, maxScale]. reset() restores scale and origin to configured initial values."
\<close>

definition clampScale :: "real \<Rightarrow> real" where
  "clampScale s = max minScale (min maxScale s)"

definition zoomIn :: "TransformState \<Rightarrow> TransformState" where
  "zoomIn vs = vs\<lparr>scale := clampScale (scale vs * (1 + step))\<rparr>"

definition zoomOut :: "TransformState \<Rightarrow> TransformState" where
  "zoomOut vs = vs\<lparr>scale := clampScale (scale vs * (1 - step))\<rparr>"

definition resetTransform :: "TransformState \<Rightarrow> TransformState" where
  "resetTransform vs = initialTransform"

text \<open>The three buttons of the controls panel, and a sequence of presses.\<close>

datatype control = ZoomIn | ZoomOut | Reset

fun press :: "control \<Rightarrow> TransformState \<Rightarrow> TransformState" where
  "press ZoomIn vs = zoomIn vs"
| "press ZoomOut vs = zoomOut vs"
| "press Reset vs = resetTransform vs"

definition inScaleRange :: "TransformState \<Rightarrow> bool" where
  "inScaleRange vs \<longleftrightarrow> minScale \<le> scale vs \<and> scale vs \<le> maxScale"

section \<open>States used as concrete inputs\<close>

text \<open>
  The component after switching to mobile and adding two screens, with a prompt typed;
  the same with generated content on the first screen; and an empty mobile project.
\<close>

definition threeMobile :: Home where
  "threeMobile = (addScreens [1, 2] (handleDeviceChange mobile initialHome))\<lparr>prompt := ''Budget tracker app''\<rparr>"

definition readyHome :: Home where
  "readyHome = initialHome\<lparr>prompt := ''Login screen'',
     screens := [mainScreen\<lparr>scr_html := Some ''<p>old</p>''\<rparr>]\<rparr>"

definition okResponse :: GenerateResponse where
  "okResponse = \<lparr>resp_code = ''export default App'', html_preview = ''<p>new</p>'', success = True\<rparr>"

section \<open>Frame effect of the single-screen update\<close>

lemma handleScreenUpdate_length:
  "length (handleScreenUpdate i data prev) = length prev"
  by (simp add: handleScreenUpdate_def)

lemma handleScreenUpdate_absent:
  "i \<notin> scr_id ` set prev \<Longrightarrow> handleScreenUpdate i data prev = prev"
  unfolding handleScreenUpdate_def by (induction prev) auto

text \<open>
  C9. The single-screen update keeps the length and the order of the list, leaves every
  screen whose id differs from the given one as it was (at the same position), replaces a
  screen whose id matches by its spread with the partial data, and is the identity on the
  whole list when no screen has the given id.
\<close>

theorem handleScreenUpdate_frame:
  "length (handleScreenUpdate i data prev) = length prev
   \<and> (\<forall>k < length prev.
        handleScreenUpdate i data prev ! k =
          (if scr_id (prev ! k) = i then spread (prev ! k) data else prev ! k))
   \<and> (i \<notin> scr_id ` set prev \<longrightarrow> handleScreenUpdate i data prev = prev)"
  using handleScreenUpdate_absent [of i prev data]
  by (simp add: handleScreenUpdate_def)

theorem handleScreenUpdate_frame_witness:
  "handleScreenUpdate ''main'' (noPatch\<lparr>p_x := Some 100, p_y := Some 200\<rparr>)
       [mainScreen, mainScreen\<lparr>scr_id := ''b''\<rparr>] ! 1
     = mainScreen\<lparr>scr_id := ''b''\<rparr>
   \<and> scr_x (handleScreenUpdate ''main'' (noPatch\<lparr>p_x := Some 100, p_y := Some 200\<rparr>)
        [mainScreen, mainScreen\<lparr>scr_id := ''b''\<rparr>] ! 0) = 100
   \<and> handleScreenUpdate ''c'' (noPatch\<lparr>p_x := Some 100, p_y := Some 200\<rparr>)
       [mainScreen, mainScreen\<lparr>scr_id := ''b''\<rparr>]
     = [mainScreen, mainScreen\<lparr>scr_id := ''b''\<rparr>]"
  using handleScreenUpdate_frame
    [of "''main''" "noPatch\<lparr>p_x := Some 100, p_y := Some 200\<rparr>"
        "[mainScreen, mainScreen\<lparr>scr_id := ''b''\<rparr>]"]
    handleScreenUpdate_frame
    [of "''c''" "noPatch\<lparr>p_x := Some 100, p_y := Some 200\<rparr>"
        "[mainScreen, mainScreen\<lparr>scr_id := ''b''\<rparr>]"]
  by (simp add: mainScreen_def spread_def noPatch_def)

section \<open>Coordinate round trip\<close>








lemma binade_rendered: "binade 9007199254743492 = 1"
  by (simp add: binade.simps)

lemma isDouble_rendered: "roundDouble 9007199254743492 = 9007199254743492"
  by (simp add: roundDouble_def Let_def binade_rendered)




section \<open>Layout of added screens\<close>

lemma newScreen_w: "scr_w (newScreen now st) = deviceW (deviceType st)"
  by (cases "deviceType st") (simp_all add: newScreen_def)

lemma newScreen_h: "scr_h (newScreen now st) = deviceH (deviceType st)"
  by (cases "deviceType st") (simp_all add: newScreen_def)

lemma addScreens_deviceType: "deviceType (addScreens nows st) = deviceType st"
  by (induction nows arbitrary: st) (simp_all add: handleAddScreen_def)

lemma addScreens_length:
  "length (screens (addScreens nows st)) = length (screens st) + length nows"
  by (induction nows arbitrary: st) (simp_all add: handleAddScreen_def)

lemma addScreens_prefix:
  "k < length (screens st) \<Longrightarrow> screens (addScreens nows st) ! k = screens st ! k"
  by (induction nows arbitrary: st) (simp_all add: handleAddScreen_def nth_append)

lemma addScreens_nth:
  "k < length nows \<Longrightarrow>
   screens (addScreens nows st) ! (length (screens st) + k) =
     newScreen (nows ! k) (addScreens (take k nows) st)"
proof (induction nows arbitrary: st k)
  case Nil
  then show ?case by simp
next
  case (Cons now nows)
  show ?case
  proof (cases k)
    case 0
    have "length (screens st) < length (screens (handleAddScreen now st))"
      by (simp add: handleAddScreen_def)
    from addScreens_prefix [OF this, of nows] 0 show ?thesis
      by (simp add: handleAddScreen_def)
  next
    case (Suc m)
    with Cons.prems have m: "m < length nows" by simp
    have "length (screens (handleAddScreen now st)) + m = length (screens st) + k"
      using Suc by (simp add: handleAddScreen_def)
    with Cons.IH [OF m, of "handleAddScreen now st"] Suc show ?thesis by simp
  qed
qed

lemma addScreens_x:
  assumes "k < length nows"
  shows "scr_x (screens (addScreens nows st) ! (length (screens st) + k))
           = 50 + (int (length (screens st)) + int k) * 20"
proof -
  have l: "length (screens (addScreens (take k nows) st)) = length (screens st) + k"
    using assms by (simp add: addScreens_length)
  have e: "screens (addScreens nows st) ! (length (screens st) + k) =
      newScreen (nows ! k) (addScreens (take k nows) st)"
    by (rule addScreens_nth [OF assms])
  show ?thesis
    unfolding e by (simp add: newScreen_def l)
qed

lemma addScreens_y:
  assumes "k < length nows"
  shows "scr_y (screens (addScreens nows st) ! (length (screens st) + k))
           = 50 + (int (length (screens st)) + int k) * 20"
proof -
  have l: "length (screens (addScreens (take k nows) st)) = length (screens st) + k"
    using assms by (simp add: addScreens_length)
  have e: "screens (addScreens nows st) ! (length (screens st) + k) =
      newScreen (nows ! k) (addScreens (take k nows) st)"
    by (rule addScreens_nth [OF assms])
  show ?thesis
    unfolding e by (simp add: newScreen_def l)
qed

lemma addScreens_w:
  "k < length nows \<Longrightarrow>
   scr_w (screens (addScreens nows st) ! (length (screens st) + k)) = deviceW (deviceType st)"
  by (simp add: addScreens_nth newScreen_w addScreens_deviceType)

lemma addScreens_h:
  "k < length nows \<Longrightarrow>
   scr_h (screens (addScreens nows st) ! (length (screens st) + k)) = deviceH (deviceType st)"
  by (simp add: addScreens_nth newScreen_h addScreens_deviceType)

lemma deviceW_ge: "375 \<le> deviceW d"
  by (cases d) simp_all

lemma threeMobile_screens:
  "screens threeMobile =
     [\<lparr>scr_id = ''main'', scr_name = ''App Screen'', scr_html = None,
       scr_w = 375, scr_h = 812, scr_x = 0, scr_y = 0, scr_loading = Some False\<rparr>,
      \<lparr>scr_id = ''screen-1'', scr_name = ''Screen 2'', scr_html = None,
       scr_w = 375, scr_h = 812, scr_x = 70, scr_y = 70, scr_loading = Some False\<rparr>,
      \<lparr>scr_id = ''screen-2'', scr_name = ''Screen 3'', scr_html = None,
       scr_w = 375, scr_h = 812, scr_x = 90, scr_y = 90, scr_loading = Some False\<rparr>]"
  by (simp add: threeMobile_def handleAddScreen_def newScreen_def handleDeviceChange_def
      initialHome_def mainScreen_def inheritedHtml_def inheritedLoading_def digit_def)

lemma threeMobile_prompt: "trim (prompt threeMobile) \<noteq> []"
  by (simp add: threeMobile_def trim_def isWhiteSpace_def)

lemma threeMobile_deviceType: "deviceType threeMobile = mobile"
  by (simp add: threeMobile_def handleAddScreen_def handleDeviceChange_def)

text \<open>
  C4 (as the code has it). The screen appended at index \<open>i\<close> (the length of the list
  when "add screen" is pressed) gets \<open>x = 50 + 20 * i\<close> and \<open>y = 50 + 20 * i\<close>, and the
  width and height of the current device class: 375 by 812 for mobile, 768 by 1024 for
  tablet, 1024 by 768 for web. There is no gap parameter. Three screens added to an
  empty mobile list get \<open>x = y = [50, 70, 90]\<close>, each 375 by 812.
\<close>

theorem handleAddScreen_geometry:
  "scr_x (screens (handleAddScreen now st) ! length (screens st))
       = 50 + int (length (screens st)) * 20
   \<and> scr_y (screens (handleAddScreen now st) ! length (screens st))
       = 50 + int (length (screens st)) * 20
   \<and> scr_w (screens (handleAddScreen now st) ! length (screens st)) = deviceW (deviceType st)
   \<and> scr_h (screens (handleAddScreen now st) ! length (screens st)) = deviceH (deviceType st)
   \<and> (deviceW mobile, deviceH mobile) = (375, 812)
   \<and> (deviceW tablet, deviceH tablet) = (768, 1024)
   \<and> (deviceW web, deviceH web) = (1024, 768)
   \<and> map (\<lambda>s. (scr_x s, scr_y s, scr_w s, scr_h s))
         (screens (addScreens [t0, t1, t2] (st\<lparr>deviceType := mobile, screens := []\<rparr>)))
       = [(50, 50, 375, 812), (70, 70, 375, 812), (90, 90, 375, 812)]"
  by (simp add: handleAddScreen_def newScreen_w newScreen_h) (simp add: newScreen_def)

text \<open>
  The formula \<open>x = i * (w + g)\<close>, \<open>y = 0\<close> with mobile \<open>w = 400\<close>, \<open>g = 30\<close> fails on
  the component switched to mobile with two screens added: the screens sit at
  \<open>x = [0, 70, 90]\<close>, \<open>y = [0, 70, 90]\<close> and are 375 wide, not at \<open>[0, 430, 860]\<close>,
  \<open>y = 0\<close>, 400 wide.
\<close>

theorem plan_formula_counterexample:
  "deviceType threeMobile = mobile
   \<and> map scr_x (screens threeMobile) = [0, 70, 90]
   \<and> map scr_y (screens threeMobile) = [0, 70, 90]
   \<and> map scr_w (screens threeMobile) = [375, 375, 375]
   \<and> map scr_x (screens threeMobile) \<noteq> [0 * (400 + 30), 1 * (400 + 30), 2 * (400 + 30)]
   \<and> scr_y (screens threeMobile ! 1) \<noteq> 0
   \<and> scr_w (screens threeMobile ! 1) \<noteq> 400"
  by (simp add: threeMobile_screens threeMobile_deviceType)

text \<open>
  C5 (as the code has it). Screens added one after the other have strictly increasing
  \<open>x\<close>: each one lies 20 further right than the one before it, for every device class
  and any number of screens. Their x-intervals \<open>[x, x + w)\<close> are not disjoint: every
  added screen starts inside the interval of the screen added just before it.
\<close>

theorem addScreens_x_increasing:
  assumes "length (screens st) \<le> i" and "i < j"
    and "j < length (screens (addScreens nows st))"
  shows "scr_x (screens (addScreens nows st) ! i) < scr_x (screens (addScreens nows st) ! j)
    \<and> scr_x (screens (addScreens nows st) ! j)
        = scr_x (screens (addScreens nows st) ! i) + 20 * int (j - i)
    \<and> (j = Suc i \<longrightarrow>
        scr_x (screens (addScreens nows st) ! j)
          < scr_x (screens (addScreens nows st) ! i) + scr_w (screens (addScreens nows st) ! i))"
proof -
  define m where "m = length (screens st)"
  define a where "a = i - m"
  define b where "b = j - m"
  have i: "i = m + a" and j: "j = m + b"
    using assms(1,2) by (simp_all add: a_def b_def m_def)
  have b: "b < length nows"
    using assms(3) j by (simp add: addScreens_length m_def)
  have ab: "a < b" using assms(2) i j by simp
  then have a: "a < length nows" using b by simp
  have xi: "scr_x (screens (addScreens nows st) ! i) = 50 + (int m + int a) * 20"
    unfolding i m_def by (rule addScreens_x [OF a])
  have xj: "scr_x (screens (addScreens nows st) ! j) = 50 + (int m + int b) * 20"
    unfolding j m_def by (rule addScreens_x [OF b])
  have wi: "scr_w (screens (addScreens nows st) ! i) = deviceW (deviceType st)"
    unfolding i m_def by (rule addScreens_w [OF a])
  have d: "int (j - i) = int b - int a"
    using ab i j by simp
  have ge: "375 \<le> scr_w (screens (addScreens nows st) ! i)"
    unfolding wi by (rule deviceW_ge)
  have c1: "scr_x (screens (addScreens nows st) ! i) < scr_x (screens (addScreens nows st) ! j)"
    using ab by (simp add: xi xj)
  have c2: "scr_x (screens (addScreens nows st) ! j)
      = scr_x (screens (addScreens nows st) ! i) + 20 * int (j - i)"
    by (simp add: xi xj d)
  have c3: "j = Suc i \<longrightarrow>
      scr_x (screens (addScreens nows st) ! j)
        < scr_x (screens (addScreens nows st) ! i) + scr_w (screens (addScreens nows st) ! i)"
    using c2 ge by auto
  from c1 c2 c3 show ?thesis by blast
qed

theorem addScreens_x_increasing_witness:
  "length (screens (handleDeviceChange mobile initialHome)) \<le> 1 \<and> (1::nat) < 2
   \<and> 2 < length (screens (addScreens [1, 2] (handleDeviceChange mobile initialHome)))
   \<and> scr_x (screens (addScreens [1, 2] (handleDeviceChange mobile initialHome)) ! 1)
       < scr_x (screens (addScreens [1, 2] (handleDeviceChange mobile initialHome)) ! 2)"
proof -
  have h1: "length (screens (handleDeviceChange mobile initialHome)) \<le> 1"
    by (simp add: handleDeviceChange_def initialHome_def)
  have h2: "(1::nat) < 2" by simp
  have h3: "2 < length (screens (addScreens [1, 2] (handleDeviceChange mobile initialHome)))"
    by (simp add: handleAddScreen_def handleDeviceChange_def initialHome_def)
  show ?thesis
    using addScreens_x_increasing [OF h1 h2 h3] h1 h3 by simp
qed

text \<open>
  Non-overlap fails on the mobile component with two added screens: the x-intervals of
  screens 0, 1 and 2 are \<open>[0, 375)\<close>, \<open>[70, 445)\<close> and \<open>[90, 465)\<close>, and the point 90 lies
  in all three.
\<close>

theorem non_overlap_counterexample:
  "deviceType threeMobile = mobile
   \<and> scr_x (screens threeMobile ! 0) \<le> 90
   \<and> 90 < scr_x (screens threeMobile ! 0) + scr_w (screens threeMobile ! 0)
   \<and> scr_x (screens threeMobile ! 1) \<le> 90
   \<and> 90 < scr_x (screens threeMobile ! 1) + scr_w (screens threeMobile ! 1)
   \<and> scr_x (screens threeMobile ! 2) \<le> 90
   \<and> 90 < scr_x (screens threeMobile ! 2) + scr_w (screens threeMobile ! 2)"
  by (simp add: threeMobile_screens threeMobile_deviceType)

section \<open>Device change writes sizes only\<close>

text \<open>
  C6 (as the code has it). A device change is not gated by any loading flag: in every
  state it sets the width and height of every screen to the sizes of the new device
  class and leaves \<open>x\<close> and \<open>y\<close>, and the id, name, content and loading flag of every
  screen, and the length and order of the list, as they were.
\<close>

theorem handleDeviceChange_sizes_only:
  "deviceType (handleDeviceChange type st) = type
   \<and> length (screens (handleDeviceChange type st)) = length (screens st)
   \<and> map scr_x (screens (handleDeviceChange type st)) = map scr_x (screens st)
   \<and> map scr_y (screens (handleDeviceChange type st)) = map scr_y (screens st)
   \<and> map scr_w (screens (handleDeviceChange type st))
       = replicate (length (screens st)) (deviceW type)
   \<and> map scr_h (screens (handleDeviceChange type st))
       = replicate (length (screens st)) (deviceH type)
   \<and> map scr_id (screens (handleDeviceChange type st)) = map scr_id (screens st)
   \<and> map scr_name (screens (handleDeviceChange type st)) = map scr_name (screens st)
   \<and> map scr_html (screens (handleDeviceChange type st)) = map scr_html (screens st)
   \<and> map scr_loading (screens (handleDeviceChange type st)) = map scr_loading (screens st)"
  by (simp add: handleDeviceChange_def o_def map_replicate_const)

text \<open>
  While the three mobile screens are loading (the state right after the first effect of
  a generation run), a change to web resizes them from 375 by 812 to 1024 by 768; and in
  the idle state a change to tablet leaves screen 1 at \<open>x = 70\<close>, \<open>y = 70\<close> instead of
  moving it to \<open>x = 1 * (768 + 70)\<close>, \<open>y = 0\<close>.
\<close>

theorem device_change_gating_counterexample:
  "map scr_loading (screens (perform SetScreensLoading threeMobile))
       = [Some True, Some True, Some True]
   \<and> map scr_w (screens (perform SetScreensLoading threeMobile)) = [375, 375, 375]
   \<and> map scr_w (screens (handleDeviceChange web (perform SetScreensLoading threeMobile)))
       = [1024, 1024, 1024]
   \<and> map scr_loading (screens threeMobile) = [Some False, Some False, Some False]
   \<and> scr_x (screens (handleDeviceChange tablet threeMobile) ! 1) = 70
   \<and> scr_x (screens (handleDeviceChange tablet threeMobile) ! 1) \<noteq> 1 * (768 + 70)
   \<and> scr_y (screens (handleDeviceChange tablet threeMobile) ! 1) \<noteq> 0"
  by (simp add: threeMobile_screens handleDeviceChange_def)

section \<open>Properties of a generation run\<close>

lemma map_eq_replicate: "\<forall>s \<in> set xs. f s = c \<Longrightarrow> map f xs = replicate (length xs) c"
  by (induction xs) auto

lemma readyHome_prompt: "trim (prompt readyHome) \<noteq> []"
  by (simp add: readyHome_def trim_def isWhiteSpace_def)

lemma handleGenerate_segments:
  "trim (prompt st) \<noteq> [] \<Longrightarrow> handleGenerate st oc = beforeAwait st @ afterAwait oc @ onTimeout oc"
  by (cases oc) (simp_all add: handleGenerate_def beforeAwait_def afterAwait_def onTimeout_def)

lemma beforeAwait_screens:
  "screens (performAll (beforeAwait st) st') =
     map (\<lambda>s. s\<lparr>scr_loading := Some True, scr_html := None\<rparr>) (screens st')"
  by (simp add: performAll_def beforeAwait_def)

lemma afterAwait_failed:
  "failed oc \<Longrightarrow>
   screens (performAll (afterAwait oc) st') = map (\<lambda>s. s\<lparr>scr_loading := Some False\<rparr>) (screens st')"
  by (cases oc) (simp_all add: performAll_def afterAwait_def failed_def)

lemma afterAwait_success:
  "success r \<Longrightarrow> screens (performAll (afterAwait (Resolved r)) st') = screens st'"
  by (simp add: performAll_def afterAwait_def)

lemma onTimeout_success:
  "success r \<Longrightarrow>
   screens (performAll (onTimeout (Resolved r)) st') =
     map (\<lambda>s. s\<lparr>scr_html := Some (html_preview r), scr_loading := Some False\<rparr>) (screens st')"
  by (simp add: performAll_def onTimeout_def)

lemma onTimeout_failed: "failed oc \<Longrightarrow> onTimeout oc = []"
  by (cases oc) (simp_all add: onTimeout_def failed_def)

lemma performAll_append: "performAll (es @ fs) st = performAll fs (performAll es st)"
  by (simp add: performAll_def)

lemma runGenerate_alone: "runGenerate st oc [] [] = performAll (handleGenerate st oc) st"
proof (cases "trim (prompt st) = []")
  case True
  then show ?thesis by (simp add: runGenerate_def handleGenerate_def performAll_def)
next
  case False
  show ?thesis
  proof (cases "failed oc")
    case True
    with False show ?thesis
      by (simp add: runGenerate_def handleGenerate_segments onTimeout_failed performAll_append
          occurAll_def)
  next
    case f: False
    with False show ?thesis
      by (simp add: runGenerate_def handleGenerate_segments performAll_append occurAll_def)
  qed
qed

lemma runGenerate_failed:
  "trim (prompt st) \<noteq> [] \<Longrightarrow> failed oc \<Longrightarrow>
   screens (runGenerate st oc awaiting waiting) =
     map (\<lambda>s. s\<lparr>scr_loading := Some False\<rparr>)
       (screens (occurAll awaiting (performAll (beforeAwait st) st)))"
  by (simp add: runGenerate_def afterAwait_failed)

lemma runGenerate_success:
  "trim (prompt st) \<noteq> [] \<Longrightarrow> success r \<Longrightarrow>
   screens (runGenerate st (Resolved r) awaiting waiting) =
     map (\<lambda>s. s\<lparr>scr_html := Some (html_preview r), scr_loading := Some False\<rparr>)
       (screens (occurAll waiting (performAll (afterAwait (Resolved r))
          (occurAll awaiting (performAll (beforeAwait st) st)))))"
  by (simp add: runGenerate_def onTimeout_success failed_def)

lemma runGenerate_failed_alone:
  "trim (prompt st) \<noteq> [] \<Longrightarrow> failed oc \<Longrightarrow>
   screens (runGenerate st oc [] waiting) =
     map (\<lambda>s. s\<lparr>scr_html := None, scr_loading := Some False\<rparr>) (screens st)"
  by (simp add: runGenerate_failed occurAll_def beforeAwait_screens)

text \<open>
  C1 (as the code has it). A run with a non-blank prompt issues exactly one generation
  request for the whole run, whatever the number of screens, carrying the prompt and the
  device class. It is issued after one update has put every screen into the loading
  state with its content cleared, and no further request follows. The outcome is applied
  by one update to every screen of the list current at that moment, whatever has
  occurred meanwhile: a failure resets every loading flag, a success (when the timer
  fires) gives every screen the preview of the response and resets every loading flag.
\<close>

theorem handleGenerate_single_request:
  assumes "trim (prompt st) \<noteq> []"
  shows "requests (handleGenerate st oc) = [GenerateComponent (prompt st) (deviceType st)]
    \<and> beforeRequest (handleGenerate st oc) = [SetScreensLoading, SetCode None]
    \<and> screens (performAll (beforeRequest (handleGenerate st oc)) st)
        = map (\<lambda>s. s\<lparr>scr_loading := Some True, scr_html := None\<rparr>) (screens st)
    \<and> afterRequest (handleGenerate st oc) = afterAwait oc @ onTimeout oc
    \<and> requests (afterRequest (handleGenerate st oc)) = []
    \<and> (failed oc \<longrightarrow>
         screens (runGenerate st oc awaiting waiting)
           = map (\<lambda>s. s\<lparr>scr_loading := Some False\<rparr>)
               (screens (occurAll awaiting (performAll (beforeAwait st) st))))
    \<and> (\<forall>r. oc = Resolved r \<and> success r \<longrightarrow>
         screens (runGenerate st oc awaiting waiting)
           = map (\<lambda>s. s\<lparr>scr_html := Some (html_preview r), scr_loading := Some False\<rparr>)
               (screens (occurAll waiting (performAll (afterAwait oc)
                  (occurAll awaiting (performAll (beforeAwait st) st))))))"
proof -
  have r: "requests (handleGenerate st oc) = [GenerateComponent (prompt st) (deviceType st)]"
    using assms by (cases oc) (simp_all add: handleGenerate_def requests_def)
  have b: "beforeRequest (handleGenerate st oc) = [SetScreensLoading, SetCode None]"
    using assms by (simp add: handleGenerate_def beforeRequest_def)
  have l: "screens (performAll [SetScreensLoading, SetCode None] st)
        = map (\<lambda>s. s\<lparr>scr_loading := Some True, scr_html := None\<rparr>) (screens st)"
    by (simp add: performAll_def)
  have g: "afterRequest (handleGenerate st oc) = afterAwait oc @ onTimeout oc"
    using assms by (simp add: handleGenerate_segments beforeAwait_def afterRequest_def)
  have a: "requests (afterAwait oc @ onTimeout oc) = []"
    by (cases oc) (simp_all add: afterAwait_def onTimeout_def requests_def)
  have f: "failed oc \<longrightarrow>
         screens (runGenerate st oc awaiting waiting)
           = map (\<lambda>s. s\<lparr>scr_loading := Some False\<rparr>)
               (screens (occurAll awaiting (performAll (beforeAwait st) st)))"
    using runGenerate_failed [OF assms] by blast
  have s: "\<forall>r. oc = Resolved r \<and> success r \<longrightarrow>
         screens (runGenerate st oc awaiting waiting)
           = map (\<lambda>s. s\<lparr>scr_html := Some (html_preview r), scr_loading := Some False\<rparr>)
               (screens (occurAll waiting (performAll (afterAwait oc)
                  (occurAll awaiting (performAll (beforeAwait st) st)))))"
    using runGenerate_success [OF assms] by blast
  from r b l g a f s show ?thesis by simp
qed

theorem handleGenerate_single_request_witness:
  "trim (prompt readyHome) \<noteq> []
   \<and> map scr_html (screens readyHome) = [Some ''<p>old</p>'']
   \<and> requests (handleGenerate readyHome Rejected) = [GenerateComponent ''Login screen'' web]
   \<and> map scr_html (screens (performAll (beforeRequest (handleGenerate readyHome Rejected)) readyHome))
       = [None]
   \<and> map scr_loading (screens (performAll (beforeRequest (handleGenerate readyHome Rejected)) readyHome))
       = [Some True]"
proof -
  note t = handleGenerate_single_request [OF readyHome_prompt, of Rejected]
  have q: "requests (handleGenerate readyHome Rejected)
      = [GenerateComponent (prompt readyHome) (deviceType readyHome)]"
    using t by blast
  have e: "screens (performAll (beforeRequest (handleGenerate readyHome Rejected)) readyHome)
      = map (\<lambda>s. s\<lparr>scr_loading := Some True, scr_html := None\<rparr>) (screens readyHome)"
    using t by blast
  have p: "prompt readyHome = ''Login screen''" "deviceType readyHome = web"
    "screens readyHome = [mainScreen\<lparr>scr_html := Some ''<p>old</p>''\<rparr>]"
    by (simp_all add: readyHome_def initialHome_def)
  show ?thesis
    unfolding q e using readyHome_prompt by (simp add: p)
qed

text \<open>
  Per-screen sequencing fails on the three mobile screens: the run issues one request,
  not three, and at the moment it is issued screens 1 and 2 are already loading although
  nothing has been applied for screen 0, which is still loading without content.
\<close>

theorem sequencing_counterexample:
  "length (screens threeMobile) = 3
   \<and> length (requests (handleGenerate threeMobile (Resolved okResponse))) = 1
   \<and> map scr_loading
        (screens (performAll (beforeRequest (handleGenerate threeMobile (Resolved okResponse)))
           threeMobile))
       = [Some True, Some True, Some True]
   \<and> map scr_html
        (screens (performAll (beforeRequest (handleGenerate threeMobile (Resolved okResponse)))
           threeMobile))
       = [None, None, None]"
  using threeMobile_prompt
  by (simp add: handleGenerate_def requests_def beforeRequest_def performAll_def
      threeMobile_screens)

text \<open>
  C2 (as the code has it). When the single request of a run with a non-blank prompt
  fails (the promise rejects, or the response has no success flag), the failure is
  applied to every screen of the list current at that moment, not to one of them,
  whatever has occurred while the request was pending: every loading flag ends false,
  and the content and the number of the screens stay as they were at that moment; no
  effect of the run attaches content. When nothing else occurs while the request is
  pending, every screen ends with its content absent and its loading flag false, and
  the list has the length it had before the run.
\<close>

theorem handleGenerate_failure_all_screens:
  assumes "trim (prompt st) \<noteq> []" and "failed oc"
  shows "(\<forall>s \<in> set (screens (runGenerate st oc awaiting waiting)). scr_loading s = Some False)
    \<and> map scr_html (screens (runGenerate st oc awaiting waiting))
        = map scr_html (screens (occurAll awaiting (performAll (beforeAwait st) st)))
    \<and> length (screens (runGenerate st oc awaiting waiting))
        = length (screens (occurAll awaiting (performAll (beforeAwait st) st)))
    \<and> (\<forall>e \<in> set (handleGenerate st oc). \<forall>h. e \<noteq> SetScreensPreview h)
    \<and> (\<forall>s \<in> set (screens (runGenerate st oc [] waiting)).
          scr_html s = None \<and> scr_loading s = Some False)
    \<and> length (screens (runGenerate st oc [] waiting)) = length (screens st)
    \<and> runGenerate st oc [] [] = performAll (handleGenerate st oc) st"
proof -
  have a: "\<forall>s \<in> set (screens (runGenerate st oc awaiting waiting)). scr_loading s = Some False"
    by (simp add: runGenerate_failed [OF assms])
  have b: "map scr_html (screens (runGenerate st oc awaiting waiting))
        = map scr_html (screens (occurAll awaiting (performAll (beforeAwait st) st)))"
    by (simp add: runGenerate_failed [OF assms] o_def)
  have c: "length (screens (runGenerate st oc awaiting waiting))
        = length (screens (occurAll awaiting (performAll (beforeAwait st) st)))"
    by (simp add: runGenerate_failed [OF assms])
  have d: "\<forall>e \<in> set (handleGenerate st oc). \<forall>h. e \<noteq> SetScreensPreview h"
    using assms by (cases oc) (auto simp add: handleGenerate_def failed_def)
  have e: "\<forall>s \<in> set (screens (runGenerate st oc [] waiting)).
          scr_html s = None \<and> scr_loading s = Some False"
    by (simp add: runGenerate_failed_alone [OF assms])
  have f: "length (screens (runGenerate st oc [] waiting)) = length (screens st)"
    by (simp add: runGenerate_failed_alone [OF assms])
  from a b c d e f runGenerate_alone [of st oc] show ?thesis by blast
qed

theorem handleGenerate_failure_all_screens_witness:
  "trim (prompt threeMobile) \<noteq> [] \<and> failed (Resolved (okResponse\<lparr>success := False\<rparr>))
   \<and> map scr_html (screens (runGenerate threeMobile
          (Resolved (okResponse\<lparr>success := False\<rparr>)) [] []))
       = replicate (length (screens threeMobile)) None"
proof -
  have f: "failed (Resolved (okResponse\<lparr>success := False\<rparr>))"
    by (simp add: failed_def)
  note t = handleGenerate_failure_all_screens [OF threeMobile_prompt f, of "[]" "[]"]
  have a: "\<forall>s \<in> set (screens (runGenerate threeMobile
      (Resolved (okResponse\<lparr>success := False\<rparr>)) [] [])). scr_html s = None"
    using t by blast
  have l: "length (screens (runGenerate threeMobile
      (Resolved (okResponse\<lparr>success := False\<rparr>)) [] [])) = length (screens threeMobile)"
    using t by blast
  have "map scr_html (screens (runGenerate threeMobile
          (Resolved (okResponse\<lparr>success := False\<rparr>)) [] []))
       = replicate (length (screens threeMobile)) None"
    using map_eq_replicate [OF a] unfolding l .
  with threeMobile_prompt f show ?thesis by blast
qed

text \<open>
  Failure isolation fails on the three mobile screens: when the request of the run is
  rejected and nothing else occurs meanwhile, screens 1 and 2 end without content as
  well; none of the three is shown as generated.
\<close>

theorem failure_isolation_counterexample:
  "handleGenerate threeMobile Rejected =
     [SetScreensLoading, SetCode None, GenerateComponent ''Budget tracker app'' mobile,
      ConsoleError, Alert ''Failed to generate component. Please try again.'',
      SetScreensNotLoading]
   \<and> map scr_html (screens (runGenerate threeMobile Rejected [] [])) = [None, None, None]
   \<and> map scr_loading (screens (runGenerate threeMobile Rejected [] []))
       = [Some False, Some False, Some False]"
proof -
  have "handleGenerate threeMobile Rejected =
     [SetScreensLoading, SetCode None, GenerateComponent (prompt threeMobile) (deviceType threeMobile),
      ConsoleError, Alert ''Failed to generate component. Please try again.'',
      SetScreensNotLoading]"
    using threeMobile_prompt by (simp add: handleGenerate_def)
  moreover have "prompt threeMobile = ''Budget tracker app''"
    by (simp add: threeMobile_def)
  moreover have "failed Rejected" by (simp add: failed_def)
  ultimately show ?thesis
    using threeMobile_prompt
    by (simp add: threeMobile_deviceType runGenerate_failed_alone threeMobile_screens)
qed

text \<open>
  Why the second half of C2 asks that nothing else occurs: a further run started with
  the Enter key while the first request is pending, and succeeding before the first one
  is rejected, leaves its preview on the screen when the first run ends.
\<close>

lemma overlapping_runs_example:
  "map scr_html
     (screens (runGenerate readyHome Rejected
        [RunSegment (beforeAwait readyHome), RunSegment (afterAwait (Resolved okResponse)),
         RunSegment (onTimeout (Resolved okResponse))] []))
     = [Some ''<p>new</p>'']"
proof -
  have f: "failed Rejected" by (simp add: failed_def)
  show ?thesis
    by (simp add: runGenerate_failed [OF readyHome_prompt f])
      (simp add: occurAll_def performAll_def beforeAwait_def afterAwait_def onTimeout_def
        okResponse_def readyHome_def)
qed

text \<open>
  C10. When the request of a run with a non-blank prompt succeeds, every screen of the
  list ends with the \<open>html_preview\<close> of the one response as its content and with its
  loading flag false, so no two screens differ in content, whatever has occurred while
  the run was suspended; the final update does this to every screen of whatever list is
  current when it is applied. When nothing else occurs, the list keeps its length.
\<close>

theorem handleGenerate_success_content:
  assumes "trim (prompt st) \<noteq> []" and "success r"
  shows "(\<forall>s \<in> set (screens (performAll (handleGenerate st (Resolved r)) st)).
            scr_html s = Some (html_preview r) \<and> scr_loading s = Some False)
    \<and> length (screens (performAll (handleGenerate st (Resolved r)) st)) = length (screens st)
    \<and> last (handleGenerate st (Resolved r)) = SetScreensPreview (html_preview r)
    \<and> (\<forall>s \<in> set (screens (perform (SetScreensPreview (html_preview r)) st')).
            scr_html s = Some (html_preview r) \<and> scr_loading s = Some False)
    \<and> (\<forall>s \<in> set (screens (runGenerate st (Resolved r) awaiting waiting)).
            scr_html s = Some (html_preview r) \<and> scr_loading s = Some False)
    \<and> runGenerate st (Resolved r) [] [] = performAll (handleGenerate st (Resolved r)) st"
proof -
  have al: "screens (performAll (handleGenerate st (Resolved r)) st)
      = map (\<lambda>s. s\<lparr>scr_html := Some (html_preview r), scr_loading := Some False\<rparr>) (screens st)"
    using assms by (simp add: handleGenerate_def performAll_def)
  have a: "\<forall>s \<in> set (screens (performAll (handleGenerate st (Resolved r)) st)).
            scr_html s = Some (html_preview r) \<and> scr_loading s = Some False"
    by (simp add: al)
  have b: "length (screens (performAll (handleGenerate st (Resolved r)) st)) = length (screens st)"
    by (simp add: al)
  have c: "last (handleGenerate st (Resolved r)) = SetScreensPreview (html_preview r)"
    using assms by (simp add: handleGenerate_def)
  have d: "\<forall>s \<in> set (screens (perform (SetScreensPreview (html_preview r)) st')).
            scr_html s = Some (html_preview r) \<and> scr_loading s = Some False"
    by simp
  have e: "\<forall>s \<in> set (screens (runGenerate st (Resolved r) awaiting waiting)).
            scr_html s = Some (html_preview r) \<and> scr_loading s = Some False"
    by (simp add: runGenerate_success [OF assms])
  from a b c d e runGenerate_alone [of st "Resolved r"] show ?thesis by blast
qed

theorem handleGenerate_success_content_witness:
  "trim (prompt threeMobile) \<noteq> [] \<and> success okResponse
   \<and> map scr_html (screens (performAll (handleGenerate threeMobile (Resolved okResponse)) threeMobile))
       = replicate (length (screens threeMobile)) (Some (html_preview okResponse))"
proof -
  have s: "success okResponse" by (simp add: okResponse_def)
  note t = handleGenerate_success_content [OF threeMobile_prompt s]
  have a: "\<forall>s \<in> set (screens (performAll (handleGenerate threeMobile (Resolved okResponse))
      threeMobile)). scr_html s = Some (html_preview okResponse)"
    using t by blast
  have l: "length (screens (performAll (handleGenerate threeMobile (Resolved okResponse)) threeMobile))
      = length (screens threeMobile)"
    using t by blast
  have "map scr_html (screens (performAll (handleGenerate threeMobile (Resolved okResponse)) threeMobile))
       = replicate (length (screens threeMobile)) (Some (html_preview okResponse))"
    using map_eq_replicate [OF a] unfolding l .
  with threeMobile_prompt s show ?thesis by blast
qed

section \<open>Viewport scale\<close>

lemma clampScale_range: "minScale \<le> clampScale s \<and> clampScale s \<le> maxScale"
  by (simp add: clampScale_def minScale_def maxScale_def)

lemma initialTransform_range: "inScaleRange initialTransform"
  by (simp add: inScaleRange_def initialTransform_def initialScale_def minScale_def maxScale_def)

lemma press_range: "inScaleRange (press c vs)"
  using clampScale_range initialTransform_range
  by (cases c) (simp_all add: inScaleRange_def zoomIn_def zoomOut_def resetTransform_def)

lemma fold_press_range: "inScaleRange vs \<Longrightarrow> inScaleRange (fold press cs vs)"
  by (induction cs arbitrary: vs) (simp_all add: press_range)

text \<open>
  C8. The scale is within \<open>[minScale, maxScale] = [0.4, 4]\<close> after any sequence of presses
  of the three controls from the initial transform; zooming in or out of a scale inside
  the range gives a scale inside the range (as does clamping any other new scale); and
  reset gives scale 1 at position \<open>(-2000, -2000)\<close>.
\<close>

theorem scale_stays_in_range:
  "inScaleRange (fold press cs initialTransform)
   \<and> (inScaleRange vs \<longrightarrow> inScaleRange (zoomIn vs) \<and> inScaleRange (zoomOut vs))
   \<and> inScaleRange (vs\<lparr>scale := clampScale r\<rparr>)
   \<and> resetTransform vs = \<lparr>scale = 1, positionX = - 2000, positionY = - 2000\<rparr>
   \<and> minScale = 0.4 \<and> maxScale = 4 \<and> step = 0.1"
  using fold_press_range [OF initialTransform_range, of cs]
    press_range [of ZoomIn vs] press_range [of ZoomOut vs] clampScale_range [of r]
  by (simp add: inScaleRange_def resetTransform_def initialTransform_def initialScale_def initialPositionX_def
      initialPositionY_def minScale_def maxScale_def step_def)

theorem scale_stays_in_range_witness:
  "inScaleRange initialTransform
   \<and> inScaleRange (zoomIn initialTransform) \<and> inScaleRange (zoomOut initialTransform)
   \<and> inScaleRange (fold press [ZoomOut, ZoomOut, Reset, ZoomIn] initialTransform)"
  using scale_stays_in_range [of "[]" initialTransform]
    scale_stays_in_range [of "[ZoomOut, ZoomOut, Reset, ZoomIn]" initialTransform]
  by simp

end
